theory Spec2Isabelle
  imports Main
begin

section \<open>JavaScript strings\<close>

text \<open>
  A JavaScript string is a sequence of code units and \<open>length\<close> counts them. The model
  takes \<^typ>\<open>string\<close>, so a \<^typ>\<open>char\<close> stands for a code unit below 256; the functions
  below are the built-in string methods the plugin calls, restricted to that range.
\<close>

text \<open>White space and line terminators, as \<open>trim\<close> and \<open>trimEnd\<close> see them:
  TAB, LF, VT, FF, CR, SPACE and NBSP.\<close>

definition isWhiteSpace :: "char \<Rightarrow> bool" where
  "isWhiteSpace c = (of_char c \<in> {9, 10, 11, 12, 13, 32, 160 :: nat})"

definition trimEnd :: "string \<Rightarrow> string" where
  "trimEnd s = rev (dropWhile isWhiteSpace (rev s))"

definition trim :: "string \<Rightarrow> string" where
  "trim s = dropWhile isWhiteSpace (trimEnd s)"

text \<open>\<open>toLowerCase\<close>: A-Z and the Latin-1 capitals (U+00C0 to U+00DE except U+00D7)
  move up by 32, every other code unit below 256 stays.\<close>

definition toLowerCase_char :: "char \<Rightarrow> char" where
  "toLowerCase_char c =
     (let n = (of_char c :: nat) in
      if (65 \<le> n \<and> n \<le> 90) \<or> (192 \<le> n \<and> n \<le> 222 \<and> n \<noteq> 215)
      then char_of (n + 32) else c)"

definition toLowerCase :: "string \<Rightarrow> string" where
  "toLowerCase s = map toLowerCase_char s"

definition startsWith :: "string \<Rightarrow> string \<Rightarrow> bool" where
  "startsWith s p = (take (length p) s = p)"

section \<open>Configuration (types.ts)\<close>

record irc_sasl_config =
  sasl_username :: string
  sasl_password :: string

record irc_group_config =
  users :: "string list"

text \<open>The \<open>dm\<close> section. The authorizer reads both fields through \<open>?.\<close> and \<open>??\<close>, so
  each may be missing at run time.\<close>

record dm_config =
  policy :: "string option"
  allowFrom :: "string list option"

record rate_limit_config =
  maxRequests :: int
  windowMs :: int

text \<open>The account configuration. The policies are strings at run time (the loader casts
  them from the configuration file), and the sections read through \<open>?.\<close> or \<open>??\<close> are
  optional.\<close>

record irc_account_config =
  enabled :: bool
  server :: string
  port :: nat
  ssl :: bool
  nickname :: string
  username :: "string option"
  realname :: string
  sasl :: "irc_sasl_config option"
  nickservPassword :: "string option"
  channels :: "string list"
  dm :: "dm_config option"
  groupPolicy :: "string option"
  groups :: "(string \<rightharpoonup> irc_group_config) option"
  rateLimit :: "rate_limit_config option"

section \<open>Target classification (normalize.ts)\<close>

definition isChannel :: "string \<Rightarrow> bool" where
  "isChannel target = (startsWith target ''#'' \<or> startsWith target ''&'')"

section \<open>Sanitizing (normalize.ts)\<close>

text \<open>The character classes of the regular expressions: \<open>[A-Z]\<close>, \<open>\d\<close>, \<open>\w\<close>, the
  line terminators that \<open>.\<close> does not match, and the class \<open>IRC_CONTROL_CHARS\<close>.
  \<open>\s\<close> is \<^const>\<open>isWhiteSpace\<close>.\<close>

definition isUpper :: "char \<Rightarrow> bool" where
  "isUpper c = (let n = (of_char c :: nat) in 65 \<le> n \<and> n \<le> 90)"

definition isDigit :: "char \<Rightarrow> bool" where
  "isDigit c = (let n = (of_char c :: nat) in 48 \<le> n \<and> n \<le> 57)"

definition isWordChar :: "char \<Rightarrow> bool" where
  "isWordChar c =
     (let n = (of_char c :: nat)
      in (65 \<le> n \<and> n \<le> 90) \<or> (97 \<le> n \<and> n \<le> 122) \<or> (48 \<le> n \<and> n \<le> 57) \<or> n = 95)"

definition isLineTerminator :: "char \<Rightarrow> bool" where
  "isLineTerminator c = (of_char c \<in> {10, 13 :: nat})"

definition isControlChar :: "char \<Rightarrow> bool" where
  "isControlChar c =
     (let n = (of_char c :: nat)
      in n \<le> 8 \<or> n = 11 \<or> n = 12 \<or> (14 \<le> n \<and> n \<le> 31) \<or> n = 127)"

text \<open>\<open>IRC_COLOR_CODES\<close> is \<open>\x03(\d{1,2}(,\d{1,2})?)?\<close>: what the pattern takes after
  the \<open>\x03\<close> is one or two digits and then, if a comma and a digit follow, the comma
  and one or two digits. Every part is optional and greedy.\<close>

definition colorArgsLength :: "string \<Rightarrow> nat" where
  "colorArgsLength s =
     (let foreground = min 2 (length (takeWhile isDigit s))
      in if foreground = 0 then 0
         else (case drop foreground s of
                 [] \<Rightarrow> foreground
               | c # rest \<Rightarrow>
                   if c = CHR '','' \<and> rest \<noteq> [] \<and> isDigit (hd rest)
                   then foreground + 1 + min 2 (length (takeWhile isDigit rest))
                   else foreground))"

fun stripColorCodes :: "string \<Rightarrow> string" where
  "stripColorCodes [] = []"
| "stripColorCodes (c # cs) =
     (if c = CHR 0x03 then stripColorCodes (drop (colorArgsLength cs) cs)
      else c # stripColorCodes cs)"

definition sanitizeText :: "string \<Rightarrow> string" where
  "sanitizeText text' = trim (filter (\<lambda>c. \<not> isControlChar c) (stripColorCodes text'))"

text \<open>
  \<open>CTCP_PATTERN\<close> is \<open>^\x01([A-Z]+)\s*(.*?)\x01?$\<close>. The command is the longest run of
  capitals after the delimiter, the white space after it is skipped, and the lazy
  payload runs to the end of the text, leaving out one closing delimiter if the text
  ends with one. The match fails when there is no capital, or when the payload holds a
  line terminator, which \<open>.\<close> does not match; taking a shorter command or less white
  space cannot mend that, since the payload would only grow. The result is the pair of
  the two groups.
\<close>

definition ctcpMatch :: "string \<Rightarrow> (string \<times> string) option" where
  "ctcpMatch text' =
     (case text' of
        [] \<Rightarrow> None
      | c # rest \<Rightarrow>
          if c \<noteq> CHR 0x01 then None
          else
            (let command = takeWhile isUpper rest;
                 tail = dropWhile isWhiteSpace (dropWhile isUpper rest);
                 payload = (if tail \<noteq> [] \<and> last tail = CHR 0x01 then butlast tail else tail)
             in if command = [] \<or> list_ex isLineTerminator payload then None
                else Some (command, payload)))"

record sanitized_message =
  sanitized_text :: string
  isCtcp :: bool
  ctcpCommand :: "string option"
  ctcpText :: "string option"

definition sanitizeMessage :: "string \<Rightarrow> sanitized_message" where
  "sanitizeMessage text' =
     (case ctcpMatch text' of
        Some (command, payload) \<Rightarrow>
          if command = ''ACTION'' then
            \<lparr>sanitized_text = sanitizeText payload, isCtcp = True, ctcpCommand = Some ''ACTION'',
             ctcpText = Some (sanitizeText payload)\<rparr>
          else
            \<lparr>sanitized_text = [], isCtcp = True, ctcpCommand = Some command,
             ctcpText = Some (sanitizeText payload)\<rparr>
      | None \<Rightarrow>
          \<lparr>sanitized_text = sanitizeText text', isCtcp = False, ctcpCommand = None, ctcpText = None\<rparr>)"

definition isValidMessageContent :: "string \<Rightarrow> bool" where
  "isValidMessageContent text' =
     (if text' = [] \<or> length (trim text') = 0 then False
      else if length text' > 2000 then False
      else if CHR 0x00 \<in> set text' then False
      else True)"

text \<open>
  \<open>extractMention\<close>. The nickname is escaped, so both patterns match it letter by
  letter, ignoring case (on code units below 256 two letters are equal under the \<open>i\<close>
  flag exactly when their lower-case forms are).
\<close>

definition ciPrefix :: "string \<Rightarrow> string \<Rightarrow> bool" where
  "ciPrefix p s = (length p \<le> length s \<and> toLowerCase (take (length p) s) = toLowerCase p)"

text \<open>The first pattern, \<open>^@?NICK[,:]?\s*\<close>: the length of its match at the start of
  the text, if it matches. The \<open>@\<close> is tried first and given back when the nickname
  does not follow it.\<close>

definition leadingMentionLength :: "string \<Rightarrow> string \<Rightarrow> nat option" where
  "leadingMentionLength nickname' text' =
     (let named = (if text' \<noteq> [] \<and> hd text' = CHR ''@'' \<and> ciPrefix nickname' (tl text')
                   then Some (1 + length nickname')
                   else if ciPrefix nickname' text' then Some (length nickname')
                   else None)
      in case named of
           None \<Rightarrow> None
         | Some n \<Rightarrow>
             (let rest = drop n text';
                  n' = (if rest \<noteq> [] \<and> (hd rest = CHR '','' \<or> hd rest = CHR '':'') then n + 1
                        else n)
              in Some (n' + length (takeWhile isWhiteSpace (drop n' text')))))"

text \<open>The second pattern, \<open>\s@NICK\b\<close>: whether it matches at the start of \<open>s\<close>. The
  word boundary compares the last matched character with the one that follows.\<close>

definition inlineMentionAt :: "string \<Rightarrow> string \<Rightarrow> bool" where
  "inlineMentionAt nickname' s =
     (case s of
        w # a # rest \<Rightarrow>
          isWhiteSpace w \<and> a = CHR ''@'' \<and> ciPrefix nickname' rest \<and>
          (let matched = a # take (length nickname') rest;
               following = drop (length nickname') rest
           in isWordChar (last matched) \<noteq> (following \<noteq> [] \<and> isWordChar (hd following)))
      | _ \<Rightarrow> False)"

fun hasInlineMention :: "string \<Rightarrow> string \<Rightarrow> bool" where
  "hasInlineMention nickname' [] = False"
| "hasInlineMention nickname' (c # cs) =
     (inlineMentionAt nickname' (c # cs) \<or> hasInlineMention nickname' cs)"

text \<open>The global replacement: every match, from the left, becomes one space.\<close>

fun replaceInlineMentions :: "string \<Rightarrow> string \<Rightarrow> string" where
  "replaceInlineMentions nickname' [] = []"
| "replaceInlineMentions nickname' (c # cs) =
     (if inlineMentionAt nickname' (c # cs)
      then CHR '' '' # replaceInlineMentions nickname' (drop (1 + length nickname') cs)
      else c # replaceInlineMentions nickname' cs)"

text \<open>\<open>replace(/\s+/g, " ")\<close>: every run of white space becomes one space.\<close>

function collapseSpaces :: "string \<Rightarrow> string" where
  "collapseSpaces [] = []"
| "collapseSpaces (c # cs) =
     (if isWhiteSpace c then CHR '' '' # collapseSpaces (dropWhile isWhiteSpace cs)
      else c # collapseSpaces cs)"
  by pat_completeness auto
termination
  by (relation "measure length") (auto simp add: less_Suc_eq_le length_dropWhile_le)

definition extractMention :: "string \<Rightarrow> string \<Rightarrow> bool \<times> string" where
  "extractMention text' nickname' =
     (let (mentioned, cleanText) =
            (case leadingMentionLength nickname' text' of
               None \<Rightarrow> (False, text')
             | Some n \<Rightarrow> (True, CHR '' '' # drop n text'));
          (mentioned, cleanText) =
            (if hasInlineMention nickname' cleanText
             then (True, replaceInlineMentions nickname' cleanText)
             else (mentioned, cleanText))
      in (mentioned, trim (collapseSpaces cleanText)))"

section \<open>Authorization (auth.ts)\<close>

record authorization_result =
  authorized :: bool
  reason :: "string option"

definition normalizeNick :: "string \<Rightarrow> string" where
  "normalizeNick nick = trim (toLowerCase nick)"

definition matchesEntry :: "string \<Rightarrow> string \<Rightarrow> bool" where
  "matchesEntry nick entry =
     (if entry = ''*'' then True else normalizeNick nick = normalizeNick entry)"

definition isInList :: "string \<Rightarrow> string list \<Rightarrow> bool" where
  "isInList nick entries = list_ex (\<lambda>entry. matchesEntry nick entry) entries"

text \<open>The \<open>switch\<close> over the policy string is a chain of equality tests ending in the
  \<open>default\<close> branch. The optional logger only observes and is left out.\<close>

definition isAuthorizedForDm :: "string \<Rightarrow> irc_account_config \<Rightarrow> authorization_result" where
  "isAuthorizedForDm nick config =
     (let policy' = (case dm config of None \<Rightarrow> ''pairing''
                     | Some d \<Rightarrow> (case policy d of None \<Rightarrow> ''pairing'' | Some p \<Rightarrow> p));
          allowFrom' = (case dm config of None \<Rightarrow> []
                        | Some d \<Rightarrow> (case allowFrom d of None \<Rightarrow> [] | Some l \<Rightarrow> l))
      in
      if policy' = ''disabled'' then
        \<lparr>authorized = False, reason = Some ''DMs are disabled''\<rparr>
      else if policy' = ''open'' then
        \<lparr>authorized = True, reason = None\<rparr>
      else if policy' = ''pairing'' then
        (if length allowFrom' = 0 then
           \<lparr>authorized = False, reason = Some ''Not paired''\<rparr>
         else if isInList nick allowFrom' then
           \<lparr>authorized = True, reason = None\<rparr>
         else
           \<lparr>authorized = False, reason = Some ''Not paired''\<rparr>)
      else
        \<lparr>authorized = False, reason = Some ''Unknown policy''\<rparr>)"

text \<open>
  \<open>groups[channel] || groups[channel.toLowerCase()]\<close>: a group entry is an object,
  hence truthy, so the second lookup happens exactly when the first finds nothing. The
  map holds the entries the configuration writes. A JavaScript object also answers for
  the names every object inherits (\<open>constructor\<close>, \<open>toString\<close>, \<open>__proto__\<close> and the
  like), and for such a channel name the allow-list and deny-list branches throw where
  the map finds nothing. None of these names starts with \<open>#\<close> or \<open>&\<close>, so no channel
  that \<open>isAuthorized\<close> passes on is among them; the definition below is the function on
  all other channel names.
\<close>

definition isAuthorizedForChannel ::
  "string \<Rightarrow> string \<Rightarrow> irc_account_config \<Rightarrow> authorization_result" where
  "isAuthorizedForChannel nick channel config =
     (let groupPolicy' = (case groupPolicy config of None \<Rightarrow> ''allowlist'' | Some p \<Rightarrow> p);
          groups' = (case groups config of None \<Rightarrow> Map.empty | Some g \<Rightarrow> g);
          channelConfig = (case groups' channel of Some c \<Rightarrow> Some c
                           | None \<Rightarrow> groups' (toLowerCase channel))
      in
      if groupPolicy' = ''all'' then
        \<lparr>authorized = True, reason = None\<rparr>
      else if groupPolicy' = ''allowlist'' then
        (case channelConfig of
           None \<Rightarrow> \<lparr>authorized = False, reason = Some ''Channel not configured''\<rparr>
         | Some c \<Rightarrow>
             if isInList nick (users c) then \<lparr>authorized = True, reason = None\<rparr>
             else \<lparr>authorized = False, reason = Some ''Not in allowlist''\<rparr>)
      else if groupPolicy' = ''denylist'' then
        (case channelConfig of
           None \<Rightarrow> \<lparr>authorized = True, reason = None\<rparr>
         | Some c \<Rightarrow>
             if isInList nick (users c) then \<lparr>authorized = False, reason = Some ''In denylist''\<rparr>
             else \<lparr>authorized = True, reason = None\<rparr>)
      else
        \<lparr>authorized = False, reason = Some ''Unknown policy''\<rparr>)"

definition isAuthorized ::
  "string \<Rightarrow> string \<Rightarrow> irc_account_config \<Rightarrow> authorization_result" where
  "isAuthorized nick target config =
     (let isDirectMessage = \<not> startsWith target ''#'' in
      if isDirectMessage then isAuthorizedForDm nick config
      else isAuthorizedForChannel nick target config)"

text \<open>The policy strings the two \<open>switch\<close> statements have a \<open>case\<close> for.\<close>

definition dm_policies :: "string set" where
  "dm_policies = {''disabled'', ''open'', ''pairing''}"

definition group_policies :: "string set" where
  "group_policies = {''all'', ''allowlist'', ''denylist''}"

text \<open>The policy strings in force: the configured one, or the default of the \<open>??\<close>.\<close>

definition dm_policy_of :: "irc_account_config \<Rightarrow> string" where
  "dm_policy_of config =
     (case dm config of None \<Rightarrow> ''pairing''
      | Some d \<Rightarrow> (case policy d of None \<Rightarrow> ''pairing'' | Some p \<Rightarrow> p))"

definition group_policy_of :: "irc_account_config \<Rightarrow> string" where
  "group_policy_of config = (case groupPolicy config of None \<Rightarrow> ''allowlist'' | Some p \<Rightarrow> p)"

text \<open>The configuration of the repository's authorization tests (\<open>createConfig\<close>).\<close>

definition test_config :: irc_account_config where
  "test_config =
     \<lparr>enabled = True, server = ''irc.example.com'', port = 6697, ssl = True,
      nickname = ''testbot'', username = None, realname = ''Test Bot'', sasl = None,
      nickservPassword = None, channels = [''#test''],
      dm = Some \<lparr>policy = Some ''pairing'', allowFrom = Some []\<rparr>,
      groupPolicy = Some ''allowlist'', groups = Some Map.empty, rateLimit = None\<rparr>"

section \<open>Rate limiting (ratelimit.ts)\<close>

record rate_limit_entry =
  count :: int
  resetTime :: int
  notified :: bool

record rate_limit_result =
  limited :: bool
  shouldNotify :: bool

text \<open>The module-level \<open>rateLimits\<close> map, passed in and returned; \<open>Date.now()\<close> is the
  parameter \<open>now\<close>, in milliseconds.\<close>

type_synonym rate_limits = "string \<rightharpoonup> rate_limit_entry"

definition DEFAULT_RATE_LIMIT :: rate_limit_config where
  "DEFAULT_RATE_LIMIT = \<lparr>maxRequests = 5, windowMs = 60000\<rparr>"

definition normalizeKey :: "string \<Rightarrow> string" where
  "normalizeKey nick = trim (toLowerCase nick)"

definition isRateLimited ::
  "string \<Rightarrow> rate_limit_config \<Rightarrow> int \<Rightarrow> rate_limits \<Rightarrow> rate_limit_result \<times> rate_limits" where
  "isRateLimited nick config now rateLimits =
     (let key = normalizeKey nick;
          fresh = (\<lparr>limited = False, shouldNotify = False\<rparr>,
                   rateLimits(key \<mapsto> \<lparr>count = 1, resetTime = now + windowMs config,
                                       notified = False\<rparr>))
      in
      case rateLimits key of
        None \<Rightarrow> fresh
      | Some entry \<Rightarrow>
          if now > resetTime entry then fresh
          else if count entry \<ge> maxRequests config then
            (let shouldNotify' = \<not> notified entry in
             (\<lparr>limited = True, shouldNotify = shouldNotify'\<rparr>,
              if shouldNotify' then rateLimits(key \<mapsto> entry\<lparr>notified := True\<rparr>)
              else rateLimits))
          else
            (\<lparr>limited = False, shouldNotify = False\<rparr>,
             rateLimits(key \<mapsto> entry\<lparr>count := count entry + 1\<rparr>)))"

text \<open>The sweep the cleanup timer runs every five minutes.\<close>

definition cleanup :: "int \<Rightarrow> rate_limits \<Rightarrow> rate_limits" where
  "cleanup now rateLimits =
     (\<lambda>key. case rateLimits key of
               None \<Rightarrow> None
             | Some entry \<Rightarrow> if now > resetTime entry then None else Some entry)"

definition resetRateLimit :: "string \<Rightarrow> rate_limits \<Rightarrow> rate_limits" where
  "resetRateLimit nick rateLimits = rateLimits(normalizeKey nick := None)"

text \<open>Whether the entry of a key has its notified flag on; no entry counts as off.\<close>

definition is_notified :: "rate_limits \<Rightarrow> string \<Rightarrow> bool" where
  "is_notified rateLimits key =
     (case rateLimits key of None \<Rightarrow> False | Some entry \<Rightarrow> notified entry)"

text \<open>Successive calls for one sender at the given clock readings, threading the map: the
  results of the calls, in order.\<close>

fun isRateLimited_calls ::
  "string \<Rightarrow> rate_limit_config \<Rightarrow> int list \<Rightarrow> rate_limits \<Rightarrow> rate_limit_result list" where
  "isRateLimited_calls nick config [] rateLimits = []"
| "isRateLimited_calls nick config (now # nows) rateLimits =
     (let (r, rateLimits') = isRateLimited nick config now rateLimits
      in r # isRateLimited_calls nick config nows rateLimits')"

section \<open>Outbound chunking (send.ts)\<close>

definition MAX_MESSAGE_LENGTH :: nat where
  "MAX_MESSAGE_LENGTH = 450"

definition CHUNK_DELAY_MS :: nat where
  "CHUNK_DELAY_MS = 500"

text \<open>\<open>s.lastIndexOf(c, pos)\<close> for a one-character search string: the greatest index
  at most \<open>pos\<close> (and inside the string) that holds \<open>c\<close>, or -1.\<close>

primrec lastIndexOf :: "string \<Rightarrow> char \<Rightarrow> nat \<Rightarrow> int" where
  "lastIndexOf s c 0 = (if s \<noteq> [] \<and> s ! 0 = c then 0 else - 1)"
| "lastIndexOf s c (Suc pos) =
     (if Suc pos < length s \<and> s ! Suc pos = c then int (Suc pos) else lastIndexOf s c pos)"

text \<open>
  The split point of one iteration. \<open>maxLength\<close> is a non-negative integer, and the test
  \<open>index > maxLength * 0.3\<close> on an integer index is \<open>10 * index > 3 * maxLength\<close>: the
  floating-point product is the exact value whenever that value is an integer.
\<close>

definition splitIndex_of :: "nat \<Rightarrow> string \<Rightarrow> int" where
  "splitIndex_of maxLength remaining =
     (let splitIndex = - 1;
          newlineIndex = lastIndexOf remaining (CHR 0x0A) maxLength;
          splitIndex = (if 10 * newlineIndex > 3 * int maxLength then newlineIndex
                        else splitIndex);
          splitIndex =
            (if splitIndex = - 1 then
               (let spaceIndex = lastIndexOf remaining (CHR '' '') maxLength in
                if 10 * spaceIndex > 3 * int maxLength then spaceIndex else splitIndex)
             else splitIndex);
          splitIndex = (if splitIndex = - 1 then int maxLength else splitIndex)
      in splitIndex)"

text \<open>\<open>remaining[splitIndex]\<close> is \<open>undefined\<close> past the end, and then nothing is skipped.\<close>

definition skipChar_of :: "nat \<Rightarrow> string \<Rightarrow> nat" where
  "skipChar_of splitIndex remaining =
     (if splitIndex < length remaining \<and>
         (remaining ! splitIndex = CHR '' '' \<or> remaining ! splitIndex = CHR 0x0A)
      then 1 else 0)"

text \<open>The \<open>while\<close> loop of \<open>chunkMessage\<close>. It need not end (with \<open>maxLength = 0\<close> an
  iteration can leave \<open>remaining\<close> as it is), so not returning is the value \<open>None\<close>.\<close>

partial_function (option) chunk_loop :: "nat \<Rightarrow> string \<Rightarrow> string list \<Rightarrow> string list option" where
  "chunk_loop maxLength remaining chunks =
     (if length remaining > 0 then
        (if length remaining \<le> maxLength then
           (let final = trimEnd remaining in
            Some (if length final > 0 then chunks @ [final] else chunks))
         else
           (let splitIndex = nat (splitIndex_of maxLength remaining);
                chunk = trimEnd (take splitIndex remaining);
                chunks' = (if length chunk > 0 then chunks @ [chunk] else chunks);
                skipChar = skipChar_of splitIndex remaining
            in chunk_loop maxLength (drop (splitIndex + skipChar) remaining) chunks'))
      else Some chunks)"

declare chunk_loop.simps [code]

definition chunkMessage :: "string \<Rightarrow> nat \<Rightarrow> string list option" where
  "chunkMessage text' maxLength =
     (if length text' = 0 then Some []
      else if length text' \<le> maxLength then Some [text']
      else chunk_loop maxLength text' [])"

section \<open>Effects and errors\<close>

text \<open>A thrown value: an \<open>Error\<close> object with its name and message. \<open>String(err)\<close>
  and a template literal show it by \<open>toString\<close>.\<close>

datatype js_error = Err string string

fun message :: "js_error \<Rightarrow> string" where
  "message (Err name' msg) = msg"

fun toString :: "js_error \<Rightarrow> string" where
  "toString (Err name' msg) = (if msg = [] then name' else name' @ '': '' @ msg)"

definition Error :: "string \<Rightarrow> js_error" where
  "Error msg = Err ''Error'' msg"

datatype log_level = Info | Warn | Error_level | Debug

record connect_options =
  host :: string
  opt_port :: nat
  tls :: bool
  nick :: string
  opt_username :: string
  gecos :: string
  account :: "irc_sasl_config option"

text \<open>What the plugin does to the outside, in order: calls on the protocol library's
  client, timers, the error callback, the logger and the agent process.\<close>

datatype effect =
    Say string string
  | Join string
  | Part string
  | Quit string
  | Connect connect_options
  | RemoveAllListeners
  | SetTimeout nat
  | ClearTimeout
  | Delay nat
  | OnError js_error
  | Log log_level string
  | Spawn string string

text \<open>The outcome of a call that may throw: what it did, and the error it threw, if any.\<close>

type_synonym outcome = "effect list \<times> js_error option"

section \<open>Connection lifecycle (client.ts)\<close>

definition INITIAL_RECONNECT_DELAY :: nat where
  "INITIAL_RECONNECT_DELAY = 1000"

definition MAX_RECONNECT_DELAY :: nat where
  "MAX_RECONNECT_DELAY = 300000"

definition MAX_RECONNECT_ATTEMPTS :: nat where
  "MAX_RECONNECT_ATTEMPTS = 10"

record irc_connection_state =
  connected :: bool
  registered :: bool
  state_nickname :: "string option"
  state_channels :: "string set"
  lastError :: "string option"
  reconnectAttempts :: nat

text \<open>The wrapper together with the variables its closures share. A pending reconnect
  timer is held with its delay. Every \<open>doConnect\<close> registers one more listener for each
  event on the one library client, and only \<open>disconnect\<close> removes them:
  \<open>listenerSets\<close> counts the sets registered. The calls on the optional logger are left
  out of this section: they only observe.\<close>

record irc_client =
  accountId :: string
  config :: irc_account_config
  state :: irc_connection_state
  reconnectTimeout :: "nat option"
  shouldReconnect :: bool
  isDestroyed :: bool
  listenerSets :: nat

definition createIrcClient :: "string \<Rightarrow> irc_account_config \<Rightarrow> irc_client" where
  "createIrcClient accountId' config' =
     \<lparr>accountId = accountId', config = config',
      state = \<lparr>connected = False, registered = False, state_nickname = None,
               state_channels = {}, lastError = None, reconnectAttempts = 0\<rparr>,
      reconnectTimeout = None, shouldReconnect = True, isDestroyed = False,
      listenerSets = 0\<rparr>"

text \<open>Truthiness of an optional string: present and not empty.\<close>

definition truthy :: "string option \<Rightarrow> bool" where
  "truthy s = (case s of None \<Rightarrow> False | Some v \<Rightarrow> v \<noteq> [])"

definition connectOptions :: "irc_account_config \<Rightarrow> connect_options" where
  "connectOptions config' =
     \<lparr>host = server config', opt_port = port config', tls = ssl config',
      nick = nickname config',
      opt_username = (if truthy (username config') then the (username config')
                      else nickname config'),
      gecos = realname config',
      account = sasl config'\<rparr>"

text \<open>\<open>doConnect\<close> up to the call of the library's \<open>connect\<close>: it registers a further
  set of listeners and connects. The promise it returns is settled later by the
  \<open>registered\<close> or the \<open>irc error\<close> handler.\<close>

definition doConnect :: "irc_client \<Rightarrow> irc_client \<times> outcome" where
  "doConnect c =
     (if isDestroyed c then (c, [], Some (Error ''Client has been destroyed''))
      else (c\<lparr>listenerSets := listenerSets c + 1\<rparr>,
            [Connect (connectOptions (config c))], None))"

definition connect :: "irc_client \<Rightarrow> irc_client \<times> outcome" where
  "connect c =
     (if isDestroyed c then
        (c, [], Some (Error ''Client has been destroyed and cannot reconnect''))
      else
        doConnect (c\<lparr>shouldReconnect := True,
                     state := (state c)\<lparr>reconnectAttempts := 0\<rparr>\<rparr>))"

definition disconnect :: "irc_client \<Rightarrow> irc_client \<times> effect list" where
  "disconnect c =
     (c\<lparr>shouldReconnect := False, isDestroyed := True, reconnectTimeout := None,
        listenerSets := 0,
        state := (state c)\<lparr>connected := False, registered := False, state_channels := {}\<rparr>\<rparr>,
      (if reconnectTimeout c \<noteq> None then [ClearTimeout] else []) @
      (if connected (state c) then [Quit ''Goodbye''] else []) @
      [RemoveAllListeners])"

definition say :: "irc_client \<Rightarrow> string \<Rightarrow> string \<Rightarrow> effect list" where
  "say c target msg =
     (if connected (state c) \<and> registered (state c) then [Say target msg] else [])"

definition join :: "irc_client \<Rightarrow> string \<Rightarrow> effect list" where
  "join c channel =
     (if connected (state c) \<and> registered (state c) then [Join channel] else [])"

definition part :: "irc_client \<Rightarrow> string \<Rightarrow> irc_client \<times> effect list" where
  "part c channel =
     (if connected (state c) \<and> registered (state c) then
        (c\<lparr>state := (state c)\<lparr>state_channels := state_channels (state c) - {toLowerCase channel}\<rparr>\<rparr>,
         [Part channel])
      else (c, []))"

text \<open>The handler of the library's \<open>registered\<close> event; \<open>userNick\<close> is the library's
  \<open>client.user.nick\<close>.\<close>

definition on_registered :: "string \<Rightarrow> irc_client \<Rightarrow> irc_client \<times> effect list" where
  "on_registered userNick c =
     (c\<lparr>state := (state c)\<lparr>connected := True, registered := True,
                            state_nickname := Some userNick, lastError := None,
                            reconnectAttempts := 0\<rparr>\<rparr>,
      (if truthy (nickservPassword (config c)) \<and> sasl (config c) = None then
         [Say ''NickServ'' (''IDENTIFY '' @ the (nickservPassword (config c)))]
       else []) @
      map Join (channels (config c)))"

definition on_join :: "string \<Rightarrow> string \<Rightarrow> irc_client \<Rightarrow> irc_client" where
  "on_join channel nick' c =
     (if Some nick' = state_nickname (state c) then
        c\<lparr>state := (state c)\<lparr>state_channels := insert (toLowerCase channel) (state_channels (state c))\<rparr>\<rparr>
      else c)"

definition on_part :: "string \<Rightarrow> string \<Rightarrow> irc_client \<Rightarrow> irc_client" where
  "on_part channel nick' c =
     (if Some nick' = state_nickname (state c) then
        c\<lparr>state := (state c)\<lparr>state_channels := state_channels (state c) - {toLowerCase channel}\<rparr>\<rparr>
      else c)"

definition on_kick :: "string \<Rightarrow> string \<Rightarrow> irc_client \<Rightarrow> irc_client" where
  "on_kick channel kicked c =
     (if Some kicked = state_nickname (state c) then
        c\<lparr>state := (state c)\<lparr>state_channels := state_channels (state c) - {toLowerCase channel}\<rparr>\<rparr>
      else c)"

definition on_nick :: "string \<Rightarrow> string \<Rightarrow> irc_client \<Rightarrow> irc_client" where
  "on_nick nick' new_nick c =
     (if Some nick' = state_nickname (state c) then
        c\<lparr>state := (state c)\<lparr>state_nickname := Some new_nick\<rparr>\<rparr>
      else c)"

definition scheduleReconnect :: "irc_client \<Rightarrow> irc_client \<times> effect list" where
  "scheduleReconnect c =
     (if \<not> shouldReconnect c \<or> isDestroyed c \<or>
         reconnectAttempts (state c) \<ge> MAX_RECONNECT_ATTEMPTS then
        (c, [OnError (Error ''Max reconnection attempts (10) reached'')])
      else
        (let delay = min (INITIAL_RECONNECT_DELAY * 2 ^ reconnectAttempts (state c))
                         MAX_RECONNECT_DELAY
         in (c\<lparr>state := (state c)\<lparr>reconnectAttempts := reconnectAttempts (state c) + 1\<rparr>,
               reconnectTimeout := Some delay\<rparr>,
             [SetTimeout delay])))"

definition on_socket_close :: "irc_client \<Rightarrow> irc_client \<times> effect list" where
  "on_socket_close c =
     (let c' = c\<lparr>state := (state c)\<lparr>connected := False, registered := False,
                                    state_channels := {}\<rparr>\<rparr>
      in if shouldReconnect c' \<and> \<not> isDestroyed c' then scheduleReconnect c' else (c', []))"

definition on_socket_error :: "js_error \<Rightarrow> irc_client \<Rightarrow> irc_client \<times> effect list" where
  "on_socket_error err c =
     (c\<lparr>state := (state c)\<lparr>lastError := Some (message err)\<rparr>\<rparr>, [OnError err])"

definition on_irc_error :: "string \<Rightarrow> string option \<Rightarrow> irc_client \<Rightarrow> irc_client \<times> effect list" where
  "on_irc_error error' reason' c =
     (let lastError' = (if truthy reason' then the reason' else error')
      in (c\<lparr>state := (state c)\<lparr>lastError := Some lastError'\<rparr>\<rparr>, [OnError (Error lastError')]))"

text \<open>The reconnect timer's callback: it connects again, and when that attempt is
  rejected it schedules the next one.\<close>

definition on_reconnect_timeout :: "irc_client \<Rightarrow> irc_client \<times> outcome" where
  "on_reconnect_timeout c = (if isDestroyed c then (c, [], None) else doConnect c)"

definition on_reconnect_failed :: "irc_client \<Rightarrow> irc_client \<times> effect list" where
  "on_reconnect_failed c = scheduleReconnect c"

text \<open>An event of the library runs every listener registered for it, one after the
  other: a handler below runs once for each set of listeners.\<close>

fun run_listeners ::
  "nat \<Rightarrow> (irc_client \<Rightarrow> irc_client \<times> effect list) \<Rightarrow> irc_client \<Rightarrow> irc_client \<times> effect list" where
  "run_listeners 0 handler c = (c, [])"
| "run_listeners (Suc k) handler c =
     (let (c', es) = handler c;
          (c'', es') = run_listeners k handler c'
      in (c'', es @ es'))"

definition emit_registered :: "string \<Rightarrow> irc_client \<Rightarrow> irc_client \<times> effect list" where
  "emit_registered userNick c = run_listeners (listenerSets c) (on_registered userNick) c"

definition emit_socket_close :: "irc_client \<Rightarrow> irc_client \<times> effect list" where
  "emit_socket_close c = run_listeners (listenerSets c) on_socket_close c"

text \<open>\<open>k\<close> schedulings in a row, none of them followed by a registration: the client
  after them and what they did.\<close>

fun scheduleReconnect_times :: "nat \<Rightarrow> irc_client \<Rightarrow> irc_client \<times> effect list" where
  "scheduleReconnect_times 0 c = (c, [])"
| "scheduleReconnect_times (Suc k) c =
     (let (c', es) = scheduleReconnect_times k c;
          (c'', es') = scheduleReconnect c'
      in (c'', es @ es'))"

section \<open>Sending (send.ts)\<close>

text \<open>\<open>s.split(c)\<close> for a one-character separator; the empty string gives one empty
  piece.\<close>

primrec split :: "char \<Rightarrow> string \<Rightarrow> string list" where
  "split c [] = [[]]"
| "split c (x # xs) =
     (if x = c then [] # split c xs
      else (case split c xs of [] \<Rightarrow> [[x]] | piece # pieces \<Rightarrow> (x # piece) # pieces))"

text \<open>The sending loop: one \<open>say\<close> of the wrapper for each chunk, and the pause between
  two chunks.\<close>

fun send_chunks :: "irc_client \<Rightarrow> string \<Rightarrow> string list \<Rightarrow> effect list" where
  "send_chunks client target [] = []"
| "send_chunks client target [chunk] = say client target chunk"
| "send_chunks client target (chunk # rest) =
     say client target chunk @ [Delay CHUNK_DELAY_MS] @ send_chunks client target rest"

text \<open>\<open>sendMessageIrc\<close> throws before it sends anything when the client is not ready.
  Its result is \<open>None\<close> if chunking a line does not return.\<close>

definition sendMessageIrc :: "irc_client \<Rightarrow> string \<Rightarrow> string \<Rightarrow> outcome option" where
  "sendMessageIrc client target text' =
     (if \<not> connected (state client) then
        Some ([], Some (Error ''IRC client not connected''))
      else if \<not> registered (state client) then
        Some ([], Some (Error ''IRC client not registered''))
      else
        (let lines = split (CHR 0x0A) text';
             lines' = filter (\<lambda>line. length line \<noteq> 0) lines
         in case those (map (\<lambda>line. chunkMessage line MAX_MESSAGE_LENGTH) lines') of
              None \<Rightarrow> None
            | Some lineChunks \<Rightarrow> Some (send_chunks client target (concat lineChunks), None)))"

section \<open>Handing a message to the agent (monitor.ts, channel.ts)\<close>

datatype chat_type = Direct | Group

text \<open>The normalized inbound message. Its \<open>reply\<close> closure captures the target of the
  received line, kept here as \<open>event_target\<close>.\<close>

record inbound_message =
  msg_accountId :: string
  senderId :: string
  chatType :: chat_type
  chatId :: string
  msg_text :: string
  event_target :: string

definition reply :: "irc_client \<Rightarrow> inbound_message \<Rightarrow> string \<Rightarrow> outcome option" where
  "reply client msg text' =
     (let replyTarget = (if chatType msg = Group then event_target msg else senderId msg)
      in sendMessageIrc client replyTarget text')"

text \<open>
  What the spawned agent command did, as \<open>sendToAgent\<close> observes it: it exited with a
  code other than 0 (given as the log line prints it) and this standard error output; it
  exited with 0 and its standard output either failed to parse (with this error) or, being
  this text, parsed to this response text (empty when no field holds one); it could not be
  spawned; or the two-minute timer fired first. What happens after the promise is settled
  is left out.
\<close>

datatype agent_run =
    ExitFailure string string
  | ExitParseError js_error
  | ExitResponse string string
  | SpawnError js_error
  | TimedOut

definition sendToAgent ::
  "string \<Rightarrow> string \<Rightarrow> (string \<Rightarrow> outcome option) \<Rightarrow> agent_run \<Rightarrow> outcome option" where
  "sendToAgent sessionKey msg replyFn run =
     (let started = [Log Info (''[irc] Sending to agent via CLI: '' @ take 50 msg @ ''...''),
                     Spawn sessionKey msg]
      in case run of
        ExitFailure code stderr \<Rightarrow>
          Some (started @ [Log Error_level (''[irc] Agent command failed (code '' @ code @ ''): ''
                                            @ stderr)],
                Some (Error (''Agent command failed: '' @
                             (if stderr = [] then ''unknown error'' else stderr))))
      | ExitParseError err \<Rightarrow>
          Some (started @ [Log Error_level (''[irc] Failed to parse agent response: '' @ toString err)],
                Some err)
      | ExitResponse stdout response \<Rightarrow>
          (if response \<noteq> [] then
             (case replyFn response of
                None \<Rightarrow> None
              | Some (sent, None) \<Rightarrow>
                  Some (started @ [Log Info (''[irc] Agent response: '' @ take 100 response @ ''...'')]
                        @ sent, None)
              | Some (sent, Some err) \<Rightarrow>
                  Some (started @ [Log Info (''[irc] Agent response: '' @ take 100 response @ ''...'')]
                        @ sent
                        @ [Log Error_level (''[irc] Failed to parse agent response: '' @ toString err)],
                        Some err))
           else
             Some (started @ [Log Warn (''[irc] No response from agent, stdout: '' @ take 200 stdout)],
                   None))
      | SpawnError err \<Rightarrow>
          Some (started @ [Log Error_level (''[irc] Failed to spawn agent command: '' @ message err)],
                Some err)
      | TimedOut \<Rightarrow>
          Some (started, Some (Error ''Agent command timed out'')))"

text \<open>The callback \<open>startAccount\<close> hands to the monitor: it sends the message to the agent
  and, when that fails, logs the failure and replies to the chat.\<close>

definition startAccount_onMessage :: "irc_client \<Rightarrow> agent_run \<Rightarrow> inbound_message \<Rightarrow> outcome option" where
  "startAccount_onMessage client run msg =
     (let received = [Log Info (''['' @ accountId client @ ''] Message from '' @ senderId msg
                                @ '' in '' @ chatId msg @ '': '' @ take 100 (msg_text msg) @ ''...'')];
          isGroup = (chatType msg = Group);
          sessionKey = (if isGroup then ''irc:'' @ accountId client @ '':'' @ chatId msg
                        else ''irc:'' @ accountId client @ '':'' @ senderId msg)
      in case sendToAgent sessionKey (msg_text msg) (reply client msg) run of
           None \<Rightarrow> None
         | Some (did, None) \<Rightarrow> Some (received @ did, None)
         | Some (did, Some err) \<Rightarrow>
             (let errorMessage = message err;
                  logged = [Log Error_level (''['' @ accountId client
                                             @ ''] Failed to handle inbound message: '' @ errorMessage)]
              in case reply client msg (''Error: '' @ errorMessage) of
                   None \<Rightarrow> None
                 | Some (sent, _) \<Rightarrow> Some (received @ did @ logged @ sent, None)))"

text \<open>The end of \<open>handlePrivmsg\<close>: the call of the callback inside \<open>try\<close>, and the
  \<open>catch\<close> that logs what it throws.\<close>

definition handlePrivmsg_onMessage :: "irc_client \<Rightarrow> agent_run \<Rightarrow> inbound_message \<Rightarrow> effect list option" where
  "handlePrivmsg_onMessage client run msg =
     (case startAccount_onMessage client run msg of
        None \<Rightarrow> None
      | Some (did, None) \<Rightarrow> Some did
      | Some (did, Some err) \<Rightarrow>
          Some (did @ [Log Error_level (''['' @ accountId client
                                         @ ''] Error handling inbound message from ''
                                         @ senderId msg @ '': '' @ message err)]))"

record privmsg_event =
  privmsg_nick :: string
  privmsg_target :: string
  privmsg_message :: string

text \<open>
  \<open>handlePrivmsg\<close>, the handler of a received line: the checks (own echo, control
  messages, validity, authorization, rate limit), then the normalized message and the
  callback. It takes the clock and the rate-limit map and returns what it did, the
  error it threw if any (only the rate-limit notice can throw), and the map.
\<close>

definition handlePrivmsg ::
  "irc_client \<Rightarrow> agent_run \<Rightarrow> int \<Rightarrow> rate_limits \<Rightarrow> privmsg_event
     \<Rightarrow> (outcome \<times> rate_limits) option" where
  "handlePrivmsg client run now rateLimits event =
     (let nick' = privmsg_nick event;
          target' = privmsg_target event
      in
      if Some nick' = state_nickname (state client) then Some (([], None), rateLimits)
      else
        (let sanitized = sanitizeMessage (privmsg_message event) in
         if isCtcp sanitized \<and> ctcpCommand sanitized \<noteq> Some ''ACTION'' then
           Some (([Log Debug (''['' @ accountId client @ ''] Ignoring CTCP ''
                              @ the (ctcpCommand sanitized) @ '' from '' @ nick')], None),
                 rateLimits)
         else if \<not> isValidMessageContent (sanitized_text sanitized) then
           Some (([Log Debug (''['' @ accountId client @ ''] Rejecting invalid message from ''
                              @ nick')], None),
                 rateLimits)
         else
           (let authResult = isAuthorized nick' target' (config client) in
            if \<not> authorized authResult then
              Some (([Log Debug (''['' @ accountId client @ ''] Unauthorized message from ''
                                 @ nick' @ '' to '' @ target' @ '': ''
                                 @ (case reason authResult of None \<Rightarrow> ''undefined''
                                    | Some why \<Rightarrow> why))], None),
                    rateLimits)
            else
              (let rateLimitConfig = (case rateLimit (config client) of
                                        None \<Rightarrow> \<lparr>maxRequests = 5, windowMs = 60000\<rparr>
                                      | Some configured \<Rightarrow> configured);
                   (rateLimitResult, rateLimits') =
                     isRateLimited nick' rateLimitConfig now rateLimits
               in
               if limited rateLimitResult then
                 (if shouldNotify rateLimitResult then
                    (let replyTarget = (if isChannel target' then target' else nick') in
                     case sendMessageIrc client replyTarget
                            ''Rate limited. Please wait before sending more messages.'' of
                       None \<Rightarrow> None
                     | Some sent \<Rightarrow> Some (sent, rateLimits'))
                  else Some (([], None), rateLimits'))
               else
                 (let chatType' = (if isChannel target' then Group else Direct);
                      chatId' = (if chatType' = Group then target' else nick');
                      (mentioned, cleanText) =
                        extractMention (sanitized_text sanitized) (nickname (config client));
                      shown = (if cleanText \<noteq> [] then cleanText else sanitized_text sanitized);
                      messageText = (if ctcpCommand sanitized = Some ''ACTION''
                                     then ''* '' @ nick' @ '' '' @ shown else shown);
                      inboundMessage =
                        \<lparr>msg_accountId = accountId client, senderId = nick',
                         chatType = chatType', chatId = chatId', msg_text = messageText,
                         event_target = target'\<rparr>
                  in case handlePrivmsg_onMessage client run inboundMessage of
                       None \<Rightarrow> None
                     | Some did \<Rightarrow> Some ((did, None), rateLimits'))))))"

text \<open>The texts sent to chat targets among some effects.\<close>

fun said :: "effect list \<Rightarrow> (string \<times> string) list" where
  "said [] = []"
| "said (Say target msg # es) = (target, msg) # said es"
| "said (e # es) = said es"

section \<open>Sample inputs\<close>

text \<open>Direct messages open to everyone, groups on the default allow-list with no group
  configured.\<close>

definition open_dm_config :: irc_account_config where
  "open_dm_config = test_config\<lparr>dm := Some \<lparr>policy = Some ''open'', allowFrom = Some []\<rparr>\<rparr>"

text \<open>A direct-message policy no \<open>case\<close> knows, with every group open.\<close>

definition bogus_dm_config :: irc_account_config where
  "bogus_dm_config =
     test_config\<lparr>dm := Some \<lparr>policy = Some ''bogus'', allowFrom = Some [''*'']\<rparr>,
                 groupPolicy := Some ''all''\<rparr>"

text \<open>A group policy no \<open>case\<close> knows, with direct messages open.\<close>

definition bogus_group_config :: irc_account_config where
  "bogus_group_config = open_dm_config\<lparr>groupPolicy := Some ''bogus''\<rparr>"

text \<open>A NickServ password and no SASL section; the configuration type has no field that
  would enable or disable the NickServ path.\<close>

definition nickserv_config :: irc_account_config where
  "nickserv_config = test_config\<lparr>nickservPassword := Some ''hunter2''\<rparr>"

text \<open>A sender who has used up a limit of three and has not been told yet.\<close>

definition at_limit :: rate_limits where
  "at_limit = [''user1'' \<mapsto> \<lparr>count = 3, resetTime = 60000, notified = False\<rparr>]"

text \<open>A client that has connected and registered, with direct messages open to everyone
  and with the configuration of the tests (pairing, nobody paired); and the line
  \<open>hello\<close> that \<open>alice\<close> sends to the bot.\<close>

definition ready_client :: "irc_account_config \<Rightarrow> irc_client" where
  "ready_client cfg =
     fst (emit_registered ''testbot'' (fst (connect (createIrcClient ''main'' cfg))))"

definition hello_event :: privmsg_event where
  "hello_event = \<lparr>privmsg_nick = ''alice'', privmsg_target = ''testbot'', privmsg_message = ''hello''\<rparr>"

section \<open>Authorization\<close>

text \<open>
  C3, as amended. When the policy string that applies to the target is not a recognized
  value, \<open>isAuthorized\<close> denies with the reason "Unknown policy": for a target that
  starts with \<open>#\<close> that string is the group policy, and for a target that is no group
  identifier (it starts with neither \<open>#\<close> nor \<open>&\<close>) it is the direct-message policy.
  Nothing is said of targets that start with \<open>&\<close>.
\<close>

theorem isAuthorized_fails_closed:
  assumes "(startsWith target' ''#'' \<and> group_policy_of cfg \<notin> group_policies) \<or>
           (\<not> isChannel target' \<and> dm_policy_of cfg \<notin> dm_policies)"
  shows "isAuthorized sender target' cfg = \<lparr>authorized = False, reason = Some ''Unknown policy''\<rparr>"
proof (cases "startsWith target' ''#''")
  case True
  with assms have "group_policy_of cfg \<notin> group_policies" by (simp add: isChannel_def)
  then show ?thesis using True
    by (simp add: isAuthorized_def isAuthorizedForChannel_def group_policy_of_def
        group_policies_def Let_def)
next
  case False
  with assms have "dm_policy_of cfg \<notin> dm_policies" by simp
  then show ?thesis using False
    by (simp add: isAuthorized_def isAuthorizedForDm_def dm_policy_of_def
        dm_policies_def Let_def)
qed

text \<open>Both cases at concrete inputs: a direct message under an unknown direct-message
  policy, and a message to a \<open>#\<close> channel under an unknown group policy.\<close>

theorem isAuthorized_fails_closed_witness:
  "\<not> isChannel ''testbot'' \<and> dm_policy_of bogus_dm_config \<notin> dm_policies \<and>
   isAuthorized ''someuser'' ''testbot'' bogus_dm_config
     = \<lparr>authorized = False, reason = Some ''Unknown policy''\<rparr> \<and>
   startsWith ''#test'' ''#'' \<and> group_policy_of bogus_group_config \<notin> group_policies \<and>
   isAuthorized ''someuser'' ''#test'' bogus_group_config
     = \<lparr>authorized = False, reason = Some ''Unknown policy''\<rparr>"
  using isAuthorized_fails_closed [of "''testbot''" bogus_dm_config "''someuser''"]
    isAuthorized_fails_closed [of "''#test''" bogus_group_config "''someuser''"]
  by (simp add: isChannel_def startsWith_def dm_policy_of_def dm_policies_def group_policy_of_def
      group_policies_def bogus_dm_config_def bogus_group_config_def open_dm_config_def
      test_config_def)

text \<open>C3 as stated fails: a configuration whose direct-message policy is unknown still
  authorizes a channel message when its group policy allows it.\<close>

theorem isAuthorized_unknown_dm_policy_counterexample:
  "dm_policy_of bogus_dm_config \<notin> dm_policies \<and>
   authorized (isAuthorized ''someuser'' ''#channel'' bogus_dm_config)"
  by (simp add: dm_policy_of_def dm_policies_def startsWith_def isAuthorized_def
      isAuthorizedForChannel_def bogus_dm_config_def test_config_def)

text \<open>
  C4. The target \<open>&local\<close> is a channel for \<open>isChannel\<close>, yet \<open>isAuthorized\<close> tests
  only for \<open>#\<close> and hands it to the direct-message policy: with direct messages open the
  sender is authorized, where the group policy denies.
\<close>

theorem isAuthorized_ampersand_target:
  "isChannel ''&local'' \<and>
   isAuthorized ''alice'' ''&local'' open_dm_config = isAuthorizedForDm ''alice'' open_dm_config \<and>
   authorized (isAuthorized ''alice'' ''&local'' open_dm_config) \<and>
   isAuthorizedForChannel ''alice'' ''&local'' open_dm_config
     = \<lparr>authorized = False, reason = Some ''Channel not configured''\<rparr>"
  by (simp add: isChannel_def startsWith_def isAuthorized_def isAuthorizedForDm_def
      isAuthorizedForChannel_def open_dm_config_def test_config_def toLowerCase_def)

text \<open>
  C10. With no \<open>dm\<close> section, \<open>isAuthorizedForDm\<close> denies every sender with the reason
  "Not paired", which is what it does under the policy \<open>pairing\<close> with an empty allow
  list.
\<close>

theorem isAuthorizedForDm_no_dm_section:
  assumes "dm cfg = None"
  shows "isAuthorizedForDm sender cfg = \<lparr>authorized = False, reason = Some ''Not paired''\<rparr> \<and>
         isAuthorizedForDm sender cfg =
           isAuthorizedForDm sender
             (cfg\<lparr>dm := Some \<lparr>policy = Some ''pairing'', allowFrom = Some []\<rparr>\<rparr>)"
  using assms by (simp add: isAuthorizedForDm_def)

theorem isAuthorizedForDm_no_dm_section_witness:
  "dm (test_config\<lparr>dm := None\<rparr>) = None \<and>
   isAuthorizedForDm ''someuser'' (test_config\<lparr>dm := None\<rparr>)
     = \<lparr>authorized = False, reason = Some ''Not paired''\<rparr> \<and>
   isAuthorizedForDm ''someuser'' (test_config\<lparr>dm := None\<rparr>)
     = isAuthorizedForDm ''someuser'' test_config"
  using isAuthorizedForDm_no_dm_section [of "test_config\<lparr>dm := None\<rparr>" "''someuser''"]
  by (auto simp add: test_config_def)

section \<open>Rate limiting\<close>

text \<open>
  C5. With at most 3 requests per 60000 ms and no entry for the sender's key: the first
  call (at \<open>t1\<close>) and the next two calls within the window are not limited, the fourth
  call within the window is limited and asks for a notice, the fifth is limited and asks
  for none, and a call after the window has passed is not limited. A call is within the
  window while the clock is not past \<open>t1 + 60000\<close>.
\<close>

theorem isRateLimited_window_sequence:
  assumes "rateLimits (normalizeKey sender) = None"
    and "t2 \<le> t1 + 60000" and "t3 \<le> t1 + 60000" and "t4 \<le> t1 + 60000" and "t5 \<le> t1 + 60000"
    and "t6 > t1 + 60000"
  shows "isRateLimited_calls sender \<lparr>maxRequests = 3, windowMs = 60000\<rparr>
           [t1, t2, t3, t4, t5, t6] rateLimits =
           [\<lparr>limited = False, shouldNotify = False\<rparr>,
            \<lparr>limited = False, shouldNotify = False\<rparr>,
            \<lparr>limited = False, shouldNotify = False\<rparr>,
            \<lparr>limited = True, shouldNotify = True\<rparr>,
            \<lparr>limited = True, shouldNotify = False\<rparr>,
            \<lparr>limited = False, shouldNotify = False\<rparr>]"
  using assms by (simp add: isRateLimited_def Let_def)

theorem isRateLimited_window_sequence_witness:
  "isRateLimited_calls ''User1'' \<lparr>maxRequests = 3, windowMs = 60000\<rparr>
     [1000, 1001, 2000, 30000, 61000, 61001] Map.empty =
     [\<lparr>limited = False, shouldNotify = False\<rparr>,
      \<lparr>limited = False, shouldNotify = False\<rparr>,
      \<lparr>limited = False, shouldNotify = False\<rparr>,
      \<lparr>limited = True, shouldNotify = True\<rparr>,
      \<lparr>limited = True, shouldNotify = False\<rparr>,
      \<lparr>limited = False, shouldNotify = False\<rparr>]"
  using isRateLimited_window_sequence [where rateLimits = Map.empty and sender = "''User1''"
      and ?t1.0 = 1000 and ?t2.0 = 1001 and ?t3.0 = 2000 and ?t4.0 = 30000 and ?t5.0 = 61000
      and ?t6.0 = 61001]
  by simp

text \<open>
  C9. A call of \<open>isRateLimited\<close> that does not limit asks for no notice, and it asks
  for a notice exactly when it turns the notified flag of the sender's entry on: the
  flag is on after the call and was not on (or there was no entry) before it.
\<close>

theorem shouldNotify_only_when_limited:
  "(case isRateLimited sender cfg now rateLimits of
      (r, rateLimits') \<Rightarrow>
        (\<not> limited r \<longrightarrow> \<not> shouldNotify r) \<and>
        (shouldNotify r \<longleftrightarrow>
           is_notified rateLimits' (normalizeKey sender) \<and>
           \<not> is_notified rateLimits (normalizeKey sender)))"
  by (simp add: isRateLimited_def is_notified_def Let_def split: option.split)

theorem shouldNotify_only_when_limited_witness:
  "limited (fst (isRateLimited ''user1'' \<lparr>maxRequests = 3, windowMs = 60000\<rparr> 100 at_limit)) \<and>
   shouldNotify (fst (isRateLimited ''user1'' \<lparr>maxRequests = 3, windowMs = 60000\<rparr> 100 at_limit)) \<and>
   is_notified (snd (isRateLimited ''user1'' \<lparr>maxRequests = 3, windowMs = 60000\<rparr> 100 at_limit))
     (normalizeKey ''user1'') \<and>
   \<not> is_notified at_limit (normalizeKey ''user1'')"
  using shouldNotify_only_when_limited [where sender = "''user1''"
      and cfg = "\<lparr>maxRequests = 3, windowMs = 60000\<rparr>" and now = 100 and rateLimits = at_limit]
  by (simp add: isRateLimited_def at_limit_def is_notified_def normalizeKey_def trim_def
      trimEnd_def toLowerCase_def toLowerCase_char_def isWhiteSpace_def Let_def)

section \<open>Outbound chunking\<close>

lemma length_trimEnd_le: "length (trimEnd s) \<le> length s"
  unfolding trimEnd_def using length_dropWhile_le [of isWhiteSpace "rev s"] by simp

lemma lastIndexOf_le: "lastIndexOf s c pos \<le> int pos"
  by (induction pos) auto

text \<open>With a positive limit the split point is at least 1 and at most the limit.\<close>

lemma splitIndex_of_bounds:
  assumes "0 < L"
  shows "0 < splitIndex_of L remaining \<and> splitIndex_of L remaining \<le> int L"
  using assms lastIndexOf_le [of remaining "CHR 0x0A" L] lastIndexOf_le [of remaining "CHR '' ''" L]
  unfolding splitIndex_of_def Let_def by auto

text \<open>The loop returns, and keeps the bound on the chunks: by induction on the length
  of what remains, which every iteration shortens.\<close>

lemma chunk_loop_bound:
  assumes "0 < L" and "\<forall>c \<in> set chunks. length c \<le> L"
  shows "\<exists>result. chunk_loop L remaining chunks = Some result \<and> (\<forall>c \<in> set result. length c \<le> L)"
  using assms(2)
proof (induction "length remaining" arbitrary: remaining chunks rule: less_induct)
  case less
  show ?case
  proof (cases "length remaining = 0")
    case True
    then show ?thesis using less.prems by (subst chunk_loop.simps) simp
  next
    case nonempty: False
    show ?thesis
    proof (cases "length remaining \<le> L")
      case True
      have "length (trimEnd remaining) \<le> L"
        using length_trimEnd_le [of remaining] True by simp
      then show ?thesis using less.prems nonempty True
        by (subst chunk_loop.simps) (simp add: Let_def)
    next
      case False
      define splitIndex where "splitIndex = nat (splitIndex_of L remaining)"
      define chunk where "chunk = trimEnd (take splitIndex remaining)"
      define chunks' where "chunks' = (if length chunk > 0 then chunks @ [chunk] else chunks)"
      define rest where "rest = drop (splitIndex + skipChar_of splitIndex remaining) remaining"
      have si: "0 < splitIndex" "splitIndex \<le> L"
        using splitIndex_of_bounds [OF assms(1), of remaining] unfolding splitIndex_def by linarith+
      have "length chunk \<le> L"
        using length_trimEnd_le [of "take splitIndex remaining"] si by (simp add: chunk_def)
      then have bound: "\<forall>c \<in> set chunks'. length c \<le> L"
        using less.prems by (simp add: chunks'_def)
      have shorter: "length rest < length remaining"
        using si False by (simp add: rest_def)
      have step: "chunk_loop L remaining chunks = chunk_loop L rest chunks'"
        using nonempty False
        by (subst chunk_loop.simps) (simp add: Let_def splitIndex_def chunk_def chunks'_def rest_def)
      show ?thesis
        using less.hyps [OF shorter bound] step by simp
    qed
  qed
qed

text \<open>
  C7. For every text and every positive limit \<open>L\<close>, \<open>chunkMessage\<close> returns, and every
  chunk it returns has length at most \<open>L\<close>.
\<close>

theorem chunkMessage_length_bound:
  "0 < L \<Longrightarrow>
   \<exists>chunks. chunkMessage text' L = Some chunks \<and> (\<forall>chunk \<in> set chunks. length chunk \<le> L)"
  using chunk_loop_bound [of L "[]" text'] by (simp add: chunkMessage_def)

theorem chunkMessage_length_bound_witness:
  "(0::nat) < 10 \<and>
   (\<exists>chunks. chunkMessage ''hello world this is a test'' 10 = Some chunks
             \<and> (\<forall>chunk \<in> set chunks. length chunk \<le> 10))"
  using chunkMessage_length_bound [of 10 "''hello world this is a test''"] by simp

text \<open>The forced split of the repository's test: 500 letters under a limit of 100 give
  five chunks of 100 letters.\<close>

lemma chunkMessage_long_word:
  "chunkMessage (replicate 500 (CHR ''a'')) 100 = Some (replicate 5 (replicate 100 (CHR ''a'')))"
  by code_simp

text \<open>
  C6, as amended. The text of three short lines is 28 characters long, within the limit
  of 30, so \<open>chunkMessage\<close> returns it whole as one chunk, line breaks included. Line
  breaks split only a text longer than the limit: the three longer lines of the
  repository's test come back as three chunks.
\<close>

theorem chunkMessage_three_lines:
  "chunkMessage ''line one\<newline>line two\<newline>line three'' 30
     = Some [''line one\<newline>line two\<newline>line three''] \<and>
   chunkMessage ''line one is here\<newline>line two is here\<newline>line three is here'' 30
     = Some [''line one is here'', ''line two is here'', ''line three is here'']"
  by code_simp

text \<open>C6 as stated fails: the result is not the three lines.\<close>

theorem chunkMessage_three_lines_counterexample:
  "chunkMessage ''line one\<newline>line two\<newline>line three'' 30
     \<noteq> Some [''line one'', ''line two'', ''line three'']"
  by (simp add: chunkMessage_def)

section \<open>Connection lifecycle\<close>

text \<open>While the attempts are not used up, schedulings in a row leave reconnection
  enabled and count the attempts.\<close>

lemma scheduleReconnect_times_state:
  assumes "shouldReconnect c" and "\<not> isDestroyed c" and "reconnectAttempts (state c) = 0"
    and "k \<le> MAX_RECONNECT_ATTEMPTS"
  shows "shouldReconnect (fst (scheduleReconnect_times k c)) \<and>
         \<not> isDestroyed (fst (scheduleReconnect_times k c)) \<and>
         reconnectAttempts (state (fst (scheduleReconnect_times k c))) = k"
  using assms(4)
proof (induction k)
  case 0
  then show ?case using assms by simp
next
  case (Suc k)
  obtain c' es where run: "scheduleReconnect_times k c = (c', es)"
    by (cases "scheduleReconnect_times k c")
  from Suc run have "shouldReconnect c'" "\<not> isDestroyed c'" "reconnectAttempts (state c') = k"
    and "k < MAX_RECONNECT_ATTEMPTS" by simp_all
  then show ?case
    using run by (simp add: scheduleReconnect_def Let_def)
qed

text \<open>
  C8. Starting from a client whose attempt counter is 0 and that may reconnect, the
  \<open>n\<close>-th scheduling in a row (\<open>n\<close> from 1 up to the ceiling of 10 attempts) arms the
  timer with \<open>min (initial delay * 2 ^ (n - 1)) (maximal delay)\<close> and makes the counter
  \<open>n\<close>; and the handler of a registration sets the counter of any client back to 0.
\<close>

theorem scheduleReconnect_backoff:
  assumes "shouldReconnect c" and "\<not> isDestroyed c" and "reconnectAttempts (state c) = 0"
    and "1 \<le> n" and "n \<le> MAX_RECONNECT_ATTEMPTS"
  shows "snd (scheduleReconnect (fst (scheduleReconnect_times (n - 1) c))) =
           [SetTimeout (min (INITIAL_RECONNECT_DELAY * 2 ^ (n - 1)) MAX_RECONNECT_DELAY)] \<and>
         reconnectAttempts (state (fst (scheduleReconnect (fst (scheduleReconnect_times (n - 1) c))))) = n \<and>
         reconnectAttempts (state (fst (on_registered userNick c'))) = 0"
proof -
  from assms(4,5) have le: "n - 1 \<le> MAX_RECONNECT_ATTEMPTS" and lt: "n - 1 < MAX_RECONNECT_ATTEMPTS"
    by simp_all
  from scheduleReconnect_times_state [OF assms(1-3) le] lt assms(4)
  show ?thesis
    by (simp add: scheduleReconnect_def Let_def on_registered_def)
qed

text \<open>The third retry of a new client waits 4000 ms, and the tenth waits the maximal
  300000 ms; a registration after nine failed attempts resets the counter.\<close>

theorem scheduleReconnect_backoff_witness:
  "snd (scheduleReconnect (fst (scheduleReconnect_times 2 (createIrcClient ''main'' test_config))))
     = [SetTimeout 4000] \<and>
   snd (scheduleReconnect (fst (scheduleReconnect_times 9 (createIrcClient ''main'' test_config))))
     = [SetTimeout 300000] \<and>
   reconnectAttempts (state (fst (on_registered ''testbot''
     (fst (scheduleReconnect_times 9 (createIrcClient ''main'' test_config)))))) = 0"
  using scheduleReconnect_backoff [of "createIrcClient ''main'' test_config" 3 "''testbot''"
      "fst (scheduleReconnect_times 9 (createIrcClient ''main'' test_config))"]
    scheduleReconnect_backoff [of "createIrcClient ''main'' test_config" 10 "''testbot''"
      "fst (scheduleReconnect_times 9 (createIrcClient ''main'' test_config))"]
  by (simp add: createIrcClient_def MAX_RECONNECT_ATTEMPTS_def INITIAL_RECONNECT_DELAY_def
      MAX_RECONNECT_DELAY_def)

text \<open>
  C1. The configuration holds a NickServ password and no SASL section, and nothing
  enables the NickServ path. On registration the client still sends the password to
  NickServ in a plain \<open>IDENTIFY\<close> message, before it joins the channels.
\<close>

theorem on_registered_sends_identify:
  "sasl nickserv_config = None \<and>
   snd (on_registered ''testbot'' (createIrcClient ''main'' nickserv_config))
     = [Say ''NickServ'' ''IDENTIFY hunter2'', Join ''#test'']"
  by (simp add: on_registered_def createIrcClient_def nickserv_config_def test_config_def
      truthy_def)

section \<open>Sanitizing\<close>

text \<open>The cases of the repository's tests of the sanitizer, the validity check and the
  mention extraction.\<close>

lemma sanitizeMessage_tests:
  "sanitizeMessage ''hello world''
     = \<lparr>sanitized_text = ''hello world'', isCtcp = False, ctcpCommand = None, ctcpText = None\<rparr>"
  "sanitized_text (sanitizeMessage (CHR 0x03 # ''12,4colored text'' @ CHR 0x03 # '' normal''))
     = ''colored text normal''"
  "sanitized_text
     (sanitizeMessage (CHR 0x02 # ''bold'' @ CHR 0x02 # '' '' @ CHR 0x1D # ''italic'' @ [CHR 0x1D]))
     = ''bold italic''"
  "sanitizeMessage (CHR 0x01 # ''ACTION waves'' @ [CHR 0x01])
     = \<lparr>sanitized_text = ''waves'', isCtcp = True, ctcpCommand = Some ''ACTION'',
        ctcpText = Some ''waves''\<rparr>"
  "sanitizeMessage (CHR 0x01 # ''VERSION'' @ [CHR 0x01])
     = \<lparr>sanitized_text = [], isCtcp = True, ctcpCommand = Some ''VERSION'', ctcpText = Some []\<rparr>"
  "sanitizeMessage (CHR 0x01 # ''PING 12345'' @ [CHR 0x01])
     = \<lparr>sanitized_text = [], isCtcp = True, ctcpCommand = Some ''PING'', ctcpText = Some ''12345''\<rparr>"
  by code_simp+

lemma isValidMessageContent_tests:
  "isValidMessageContent ''hello world''"
  "isValidMessageContent ''   hello   ''"
  "\<not> isValidMessageContent []"
  "\<not> isValidMessageContent ''   ''"
  "\<not> isValidMessageContent (''hello'' @ CHR 0x00 # ''world'')"
  by code_simp+

lemma extractMention_tests:
  "extractMention ''@bot hello'' ''bot'' = (True, ''hello'')"
  "extractMention ''bot: hello'' ''bot'' = (True, ''hello'')"
  "extractMention ''bot, hello'' ''bot'' = (True, ''hello'')"
  "extractMention ''hey @bot check this'' ''bot'' = (True, ''hey check this'')"
  "extractMention ''@BOT hello'' ''bot'' = (True, ''hello'')"
  "extractMention ''hello world'' ''bot'' = (False, ''hello world'')"
  by code_simp+

section \<open>Agent failures\<close>

text \<open>With the configuration of the tests nobody is paired: the line is dropped at the
  authorization check and the agent is never called, so nothing is said.\<close>

lemma handlePrivmsg_unauthorized_dropped:
  "map_option (said \<circ> fst \<circ> fst)
     (handlePrivmsg (ready_client test_config) (ExitFailure ''1'' ''ENOENT /home/bot/key'')
        1000 Map.empty hello_event)
   = Some []"
  by code_simp

text \<open>A sender at the limit of three gets the one notice, and the agent is not called.\<close>

lemma handlePrivmsg_rate_limit_notice:
  "map_option (said \<circ> fst \<circ> fst)
     (handlePrivmsg
        (ready_client (open_dm_config\<lparr>rateLimit := Some \<lparr>maxRequests = 3, windowMs = 60000\<rparr>\<rparr>))
        TimedOut 100 at_limit
        \<lparr>privmsg_nick = ''user1'', privmsg_target = ''testbot'', privmsg_message = ''hi''\<rparr>)
   = Some [(''user1'', ''Rate limited. Please wait before sending more messages.'')]"
  by code_simp

text \<open>
  C2. Direct messages are open, so the line \<open>hello\<close> from \<open>alice\<close> passes every check of
  \<open>handlePrivmsg\<close> and reaches the agent. The agent command exits with an error and
  writes a path to its standard error. The failure is caught and logged, and the one
  text sent to the sender carries the error's message, standard error output included.
\<close>

theorem agent_error_detail_sent_to_chat:
  "map_option (said \<circ> fst \<circ> fst)
     (handlePrivmsg (ready_client open_dm_config) (ExitFailure ''1'' ''ENOENT /home/bot/key'')
        1000 Map.empty hello_event)
   = Some [(''alice'', ''Error: Agent command failed: ENOENT /home/bot/key'')]"
  by code_simp

end
